theory Spec2Isabelle
  imports Main
begin

section \<open>Python values and exceptions\<close>

text \<open>
  The values that reach \<open>validate_cohort\<close> are Python objects. The model keeps the
  ones \<open>json.dumps\<close> distinguishes: \<open>None\<close>, booleans, unbounded integers, strings,
  lists, dictionaries with string keys (insertion ordered, hence an association list), and
  \<open>PyObject cls\<close>, an object of a class \<open>cls\<close> that the encoder does not know (a set, a
  datetime, ...). Floats are not modelled. A character is a code point below 256.
\<close>

datatype pyval =
    PyNone
  | PyBool bool
  | PyInt int
  | PyStr string
  | PyList "pyval list"
  | PyDict "(string \<times> pyval) list"
  | PyObject string

text \<open>
  Instances of \<open>Exception\<close>, each with the text \<open>str(e)\<close>. The two \<open>except\<close> clauses of
  the source that name a class name \<open>json.JSONDecodeError\<close> and \<open>FileNotFoundError\<close>;
  \<open>JException\<close> is the class JPype gives to whatever a Java call throws.
\<close>

datatype pyexn =
    JSONDecodeError string
  | FileNotFoundError string
  | TypeError string
  | OSError string
  | UnicodeDecodeError string
  | RuntimeError string
  | KeyError string
  | JException string

fun exn_str :: "pyexn \<Rightarrow> string" where
  "exn_str (JSONDecodeError m) = m"
| "exn_str (FileNotFoundError m) = m"
| "exn_str (TypeError m) = m"
| "exn_str (OSError m) = m"
| "exn_str (UnicodeDecodeError m) = m"
| "exn_str (RuntimeError m) = m"
| "exn_str (KeyError m) = m"
| "exn_str (JException m) = m"


section \<open>The standard library: \<open>str\<close>, \<open>str.upper\<close>, \<open>json.dumps\<close>\<close>

definition digit_char :: "nat \<Rightarrow> char" where
  "digit_char d = char_of (48 + d)"

function str_nat :: "nat \<Rightarrow> string" where
  "str_nat n = (if n < 10 then [digit_char n] else str_nat (n div 10) @ [digit_char (n mod 10)])"
  by pat_completeness auto
termination
  by (relation "measure id") auto

declare str_nat.simps [simp del]

definition str_int :: "int \<Rightarrow> string" where
  "str_int i = (if i < 0 then CHR ''-'' # str_nat (nat (- i)) else str_nat (nat i))"

text \<open>
  \<open>str.upper\<close> on the ASCII letters. The other characters of the model are left alone:
  the uppercase form of a code point from 128 to 255 is not a letter of \<open>CRITICAL\<close> or
  \<open>ERROR\<close>, so the test of the loop is the same.
\<close>

definition upper_char :: "char \<Rightarrow> char" where
  "upper_char c =
     (if (97::nat) \<le> of_char c \<and> of_char c \<le> (122::nat)
      then char_of (of_char c - (32::nat)) else c)"

definition upper :: "string \<Rightarrow> string" where
  "upper s = map upper_char s"

definition hex_char :: "nat \<Rightarrow> char" where
  "hex_char d = (if d < 10 then char_of (48 + d) else char_of (87 + d))"

text \<open>
  \<open>json.encoder.py_encode_basestring_ascii\<close> (\<open>ensure_ascii\<close> is left at its default):
  the quote and the backslash are escaped, the five short escapes are used, and every
  other character outside \<open>' '..'~'\<close> becomes \<open>\uXXXX\<close>.
\<close>

definition escape_char :: "char \<Rightarrow> string" where
  "escape_char c =
     (if c = CHR 0x22 then [CHR 0x5C, CHR 0x22]
      else if c = CHR 0x5C then [CHR 0x5C, CHR 0x5C]
      else if c = CHR 0x08 then [CHR 0x5C, CHR ''b'']
      else if c = CHR 0x0C then [CHR 0x5C, CHR ''f'']
      else if c = CHR 0x0A then [CHR 0x5C, CHR ''n'']
      else if c = CHR 0x0D then [CHR 0x5C, CHR ''r'']
      else if c = CHR 0x09 then [CHR 0x5C, CHR ''t'']
      else if (of_char c :: nat) < 32 \<or> (126::nat) < of_char c
      then [CHR 0x5C, CHR ''u'', CHR ''0'', CHR ''0'',
            hex_char (of_char c div 16), hex_char (of_char c mod 16)]
      else [c])"

definition encode_basestring_ascii :: "string \<Rightarrow> string" where
  "encode_basestring_ascii s = CHR 0x22 # concat (map escape_char s) @ [CHR 0x22]"

fun join :: "string \<Rightarrow> string list \<Rightarrow> string" where
  "join sep [] = []"
| "join sep [x] = x"
| "join sep (x # y # ys) = x @ sep @ join sep (y # ys)"

text \<open>
  The layout of \<open>json.encoder._make_iterencode\<close>: with \<open>indent = None\<close> the items
  are separated by \<open>', '\<close>; with \<open>indent = n\<close> every item starts on a line of its own,
  \<open>n\<close> spaces deeper per level, and the separator is \<open>','\<close>. The key separator is
  \<open>': '\<close> in both.
\<close>

definition newline_indent :: "nat option \<Rightarrow> nat \<Rightarrow> string" where
  "newline_indent ind lvl =
     (case ind of None \<Rightarrow> [] | Some n \<Rightarrow> CHR 0x0A # replicate (n * lvl) CHR '' '')"

definition item_separator :: "nat option \<Rightarrow> nat \<Rightarrow> string" where
  "item_separator ind lvl =
     (case ind of None \<Rightarrow> '', '' | Some n \<Rightarrow> CHR '','' # newline_indent ind lvl)"

text \<open>
  \<open>iterencode ind lvl v\<close> is \<open>json.dumps(v, indent=ind)\<close> for a value nested \<open>lvl\<close>
  containers deep. An object of an unknown class raises \<open>TypeError\<close>, at the first place
  the encoder meets one.
\<close>

fun iterencode :: "nat option \<Rightarrow> nat \<Rightarrow> pyval \<Rightarrow> pyexn + string"
  and iterencode_list :: "nat option \<Rightarrow> nat \<Rightarrow> pyval list \<Rightarrow> pyexn + string list"
  and iterencode_dict :: "nat option \<Rightarrow> nat \<Rightarrow> (string \<times> pyval) list \<Rightarrow> pyexn + string list"
where
  "iterencode ind lvl PyNone = Inr ''null''"
| "iterencode ind lvl (PyBool b) = Inr (if b then ''true'' else ''false'')"
| "iterencode ind lvl (PyInt i) = Inr (str_int i)"
| "iterencode ind lvl (PyStr s) = Inr (encode_basestring_ascii s)"
| "iterencode ind lvl (PyList xs) =
     (if xs = [] then Inr ''[]''
      else case iterencode_list ind (Suc lvl) xs of
             Inl e \<Rightarrow> Inl e
           | Inr parts \<Rightarrow>
               Inr (''['' @ newline_indent ind (Suc lvl)
                    @ join (item_separator ind (Suc lvl)) parts
                    @ newline_indent ind lvl @ '']''))"
| "iterencode ind lvl (PyDict kvs) =
     (if kvs = [] then Inr ''{}''
      else case iterencode_dict ind (Suc lvl) kvs of
             Inl e \<Rightarrow> Inl e
           | Inr parts \<Rightarrow>
               Inr (''{'' @ newline_indent ind (Suc lvl)
                    @ join (item_separator ind (Suc lvl)) parts
                    @ newline_indent ind lvl @ ''}''))"
| "iterencode ind lvl (PyObject cls) =
     Inl (TypeError (''Object of type '' @ cls @ '' is not JSON serializable''))"
| "iterencode_list ind lvl [] = Inr []"
| "iterencode_list ind lvl (x # xs) =
     (case iterencode ind lvl x of
        Inl e \<Rightarrow> Inl e
      | Inr s \<Rightarrow> (case iterencode_list ind lvl xs of
                    Inl e \<Rightarrow> Inl e
                  | Inr ss \<Rightarrow> Inr (s # ss)))"
| "iterencode_dict ind lvl [] = Inr []"
| "iterencode_dict ind lvl (kv # kvs) =
     (case iterencode ind lvl (snd kv) of
        Inl e \<Rightarrow> Inl e
      | Inr s \<Rightarrow> (case iterencode_dict ind lvl kvs of
                    Inl e \<Rightarrow> Inl e
                  | Inr ss \<Rightarrow> Inr ((encode_basestring_ascii (fst kv) @ '': '' @ s) # ss)))"

definition json_dumps :: "pyval \<Rightarrow> pyexn + string" where
  "json_dumps v = iterencode None 0 v"


section \<open>The Java side, as the wrapper sees it\<close>

text \<open>
  The CIRCE classes are reached through JPype and are no part of this package. A finding
  of the checker is represented by what the wrapper reads from it: the text of
  \<open>toMessage()\<close>, the text of \<open>getSeverity()\<close> (\<open>None\<close> when the object has no
  attribute \<open>getSeverity\<close>, the case \<open>hasattr\<close> tests) and \<open>getClass().getSimpleName()\<close>.
\<close>

record java_warning =
  toMessage :: string
  getSeverity :: "string option"
  getSimpleName :: string

text \<open>
  The object \<open>self\<close>. \<open>self_cohort_expression_class\<close> is \<open>CohortExpression.fromJson\<close>
  and \<open>self_checker\<close> is \<open>Checker.check\<close>; \<open>'e\<close> is the type of Java cohort
  expressions. A Java call returns its value or the text of what it threw; JPype raises
  that as a \<open>JException\<close>, a subclass of \<open>Exception\<close> and never a
  \<open>json.JSONDecodeError\<close>.
\<close>

record 'e CohortValidator =
  self_jvm_started :: bool
  self_jar_path :: string
  self_dependencies_path :: string
  self_checker :: "'e \<Rightarrow> string + java_warning list"
  self_cohort_expression_class :: "string \<Rightarrow> string + 'e"

datatype 'e java_call = FromJson string | Check 'e

section \<open>\<open>CohortValidator.validate_cohort\<close>\<close>

text \<open>A result dictionary: string keys, string values, in insertion order.\<close>

type_synonym finding = "(string \<times> string) list"

definition getitem :: "(string \<times> 'v) list \<Rightarrow> string \<Rightarrow> pyexn + 'v" where
  "getitem d k = (case map_of d k of None \<Rightarrow> Inl (KeyError k) | Some v \<Rightarrow> Inr v)"

text \<open>
  The objects a call works on: the receiver, the argument, the two local lists the loop
  appends to, and the log of the Java calls made so far. A statement maps a frame to an
  outcome and the frame it leaves.
\<close>

record 'e frame =
  self :: "'e CohortValidator"
  cohort_json :: pyval
  warnings :: "finding list"
  errors :: "finding list"
  java_calls :: "'e java_call list"

definition severity_str :: "java_warning \<Rightarrow> string" where
  "severity_str java_warning =
     (case getSeverity java_warning of Some s \<Rightarrow> s | None \<Rightarrow> ''UNKNOWN'')"

definition warning_dict :: "java_warning \<Rightarrow> finding" where
  "warning_dict java_warning =
     [(''message'', toMessage java_warning),
      (''severity'', severity_str java_warning),
      (''type'', getSimpleName java_warning)]"

definition loop_body :: "java_warning \<Rightarrow> 'e frame \<Rightarrow> (pyexn + unit) \<times> 'e frame" where
  "loop_body java_warning fr =
     (let wd = warning_dict java_warning in
      case getitem wd ''severity'' of
        Inl e \<Rightarrow> (Inl e, fr)
      | Inr s \<Rightarrow>
          (let severity = upper s in
           if severity \<in> set [''CRITICAL'', ''ERROR'']
           then (Inr (), fr\<lparr>errors := errors fr @ [wd]\<rparr>)
           else (Inr (), fr\<lparr>warnings := warnings fr @ [wd]\<rparr>)))"

fun for_loop :: "java_warning list \<Rightarrow> 'e frame \<Rightarrow> (pyexn + unit) \<times> 'e frame" where
  "for_loop [] fr = (Inr (), fr)"
| "for_loop (java_warning # rest) fr =
     (case loop_body java_warning fr of
        (Inl e, fr') \<Rightarrow> (Inl e, fr')
      | (Inr _, fr') \<Rightarrow> for_loop rest fr')"

text \<open>The \<open>try\<close> block, lines 151 to 181.\<close>

definition validate_cohort_try ::
  "'e frame \<Rightarrow> (pyexn + finding list \<times> finding list) \<times> 'e frame" where
  "validate_cohort_try fr =
     (case json_dumps (cohort_json fr) of
        Inl e \<Rightarrow> (Inl e, fr)
      | Inr doc \<Rightarrow>
          (let fr1 = fr\<lparr>java_calls := java_calls fr @ [FromJson doc]\<rparr> in
           case self_cohort_expression_class (self fr1) doc of
             Inl m \<Rightarrow> (Inl (JException m), fr1)
           | Inr cohort_expression \<Rightarrow>
               (let fr2 = fr1\<lparr>java_calls := java_calls fr1 @ [Check cohort_expression]\<rparr> in
                case self_checker (self fr2) cohort_expression of
                  Inl m \<Rightarrow> (Inl (JException m), fr2)
                | Inr java_warnings \<Rightarrow>
                    (case for_loop java_warnings (fr2\<lparr>warnings := [], errors := []\<rparr>) of
                       (Inl e, fr3) \<Rightarrow> (Inl e, fr3)
                     | (Inr _, fr3) \<Rightarrow> (Inr (warnings fr3, errors fr3), fr3)))))"

text \<open>The two \<open>except\<close> clauses, in the order of the source.\<close>

definition except_clauses :: "pyexn \<Rightarrow> finding list \<times> finding list" where
  "except_clauses e =
     (case e of
        JSONDecodeError m \<Rightarrow>
          ([], [[(''message'', ''Invalid JSON: '' @ exn_str e),
                 (''severity'', ''CRITICAL''),
                 (''type'', ''JSON_ERROR'')]])
      | _ \<Rightarrow>
          ([], [[(''message'', ''Validation error: '' @ exn_str e),
                 (''severity'', ''CRITICAL''),
                 (''type'', ''VALIDATION_ERROR'')]]))"

definition validate_cohort_frame ::
  "'e frame \<Rightarrow> (pyexn + finding list \<times> finding list) \<times> 'e frame" where
  "validate_cohort_frame fr =
     (case validate_cohort_try fr of
        (Inr r, fr') \<Rightarrow> (Inr r, fr')
      | (Inl e, fr') \<Rightarrow> (Inr (except_clauses e), fr'))"

definition call_frame :: "'e CohortValidator \<Rightarrow> pyval \<Rightarrow> 'e frame" where
  "call_frame slf arg =
     \<lparr>self = slf, cohort_json = arg, warnings = [], errors = [], java_calls = []\<rparr>"

definition validate_cohort ::
  "'e CohortValidator \<Rightarrow> pyval \<Rightarrow> pyexn + finding list \<times> finding list" where
  "validate_cohort slf arg = fst (validate_cohort_frame (call_frame slf arg))"

section \<open>\<open>CohortValidator.validate_cohort_file\<close>\<close>

text \<open>
  \<open>read_file path\<close> is \<open>open(path, "r", encoding="utf-8")\<close> followed by \<open>f.read()\<close>:
  the text of the file, or the exception raised.
\<close>

definition validate_cohort_file_try ::
  "(string \<Rightarrow> pyexn + string) \<Rightarrow> 'e CohortValidator \<Rightarrow> string
     \<Rightarrow> (pyexn + finding list \<times> finding list) \<times> 'e java_call list" where
  "validate_cohort_file_try read_file slf file_path =
     (case read_file file_path of
        Inl e \<Rightarrow> (Inl e, [])
      | Inr cohort_json_text \<Rightarrow>
          (case validate_cohort_frame (call_frame slf (PyStr cohort_json_text)) of
             (r, fr) \<Rightarrow> (r, java_calls fr)))"

definition file_except_clauses :: "string \<Rightarrow> pyexn \<Rightarrow> finding list \<times> finding list" where
  "file_except_clauses file_path e =
     (case e of
        FileNotFoundError m \<Rightarrow>
          ([], [[(''message'', ''File not found: '' @ file_path),
                 (''severity'', ''CRITICAL''),
                 (''type'', ''FILE_ERROR'')]])
      | _ \<Rightarrow>
          ([], [[(''message'', ''File read error: '' @ exn_str e),
                 (''severity'', ''CRITICAL''),
                 (''type'', ''FILE_ERROR'')]]))"

definition validate_cohort_file_calls ::
  "(string \<Rightarrow> pyexn + string) \<Rightarrow> 'e CohortValidator \<Rightarrow> string
     \<Rightarrow> (pyexn + finding list \<times> finding list) \<times> 'e java_call list" where
  "validate_cohort_file_calls read_file slf file_path =
     (case validate_cohort_file_try read_file slf file_path of
        (Inr r, calls) \<Rightarrow> (Inr r, calls)
      | (Inl e, calls) \<Rightarrow> (Inr (file_except_clauses file_path e), calls))"

definition validate_cohort_file ::
  "(string \<Rightarrow> pyexn + string) \<Rightarrow> 'e CohortValidator \<Rightarrow> string
     \<Rightarrow> pyexn + finding list \<times> finding list" where
  "validate_cohort_file read_file slf file_path =
     fst (validate_cohort_file_calls read_file slf file_path)"

section \<open>\<open>CohortValidator.shutdown\<close>\<close>


section \<open>The command line: \<open>cli.main\<close>\<close>

datatype fmt = Json | Text

text \<open>The namespace \<open>parse_args\<close> returns.\<close>

record args =
  input_file :: string
  output_path :: "string option"
  format :: fmt
  jar_path :: "string option"
  deps_path :: "string option"

text \<open>
  What \<open>parser.parse_args()\<close> of line 43 does with a command line: it returns the
  namespace, or it prints the help text and exits with status 0 (\<open>-h\<close>, \<open>--help\<close>), or
  it prints a usage error and exits with status 2. The call is before the \<open>try\<close> block.
\<close>

datatype parsed = Parsed args | Help | Usage_error

text \<open>
  What the process finds outside itself: the command-line parser of the standard
  library, the file system, the standard output, the JSON parser of the standard library,
  the start of the JVM with the loading of the two CIRCE classes, and the flush of the
  standard streams when the interpreter exits.
\<close>

record 'e world =
  parse_args :: "string list \<Rightarrow> parsed"
  path_exists :: "string \<Rightarrow> bool"
  path_str :: "string \<Rightarrow> string"
  read_file :: "string \<Rightarrow> pyexn + string"
  json_loads :: "string \<Rightarrow> pyexn + pyval"
  write_file :: "string \<Rightarrow> string \<Rightarrow> pyexn + unit"
  print_stdout :: "string \<Rightarrow> pyexn + unit"
  default_jar_path :: string
  default_dependencies_path :: string
  start_jvm :: "string \<Rightarrow> string \<Rightarrow> pyexn + unit"
  load_classes ::
    "string \<Rightarrow> pyexn + ('e \<Rightarrow> string + java_warning list) \<times> (string \<Rightarrow> string + 'e)"
  flush_std_files :: "pyexn + unit"




record summary =
  total_warnings :: int
  total_errors :: int
  is_valid :: bool

record result =
  result_input_file :: string
  result_warnings :: "finding list"
  result_errors :: "finding list"
  result_summary :: summary

definition make_result :: "string \<Rightarrow> finding list \<Rightarrow> finding list \<Rightarrow> result" where
  "make_result input_path ws es =
     \<lparr>result_input_file = input_path,
      result_warnings = ws,
      result_errors = es,
      result_summary =
        \<lparr>total_warnings = int (length ws),
         total_errors = int (length es),
         is_valid = (length es = 0)\<rparr>\<rparr>"













section \<open>Concrete instances\<close>

text \<open>
  Stand-ins for the Java classes, to run the definitions on concrete inputs. The parser
  accepts a document that is a JSON object and rejects any other, as a data binder for
  a class does; the expression it builds is kept as the text it was built from. The
  checker reports nothing on the empty object and five findings otherwise.
\<close>

definition example_fromJson :: "string \<Rightarrow> string + string" where
  "example_fromJson doc =
     (if take 1 doc = ''{'' then Inr doc
      else Inl ''Cannot construct instance of CohortExpression'')"

definition example_findings :: "java_warning list" where
  "example_findings =
     [\<lparr>toMessage = ''Concept set 7 is not used'', getSeverity = Some ''WARNING'',
       getSimpleName = ''ConceptSetWarning''\<rparr>,
      \<lparr>toMessage = ''No initial event'', getSeverity = Some ''CRITICAL'',
       getSimpleName = ''DefaultWarning''\<rparr>,
      \<lparr>toMessage = ''untyped finding'', getSeverity = None,
       getSimpleName = ''Object''\<rparr>,
      \<lparr>toMessage = ''range has no value'', getSeverity = Some ''Error'',
       getSimpleName = ''DefaultWarning''\<rparr>,
      \<lparr>toMessage = ''no inclusion rules'', getSeverity = Some ''INFO'',
       getSimpleName = ''IncompleteRuleWarning''\<rparr>]"

definition example_check :: "string \<Rightarrow> string + java_warning list" where
  "example_check ce = (if ce = ''{}'' then Inr [] else Inr example_findings)"

definition example_validator :: "string CohortValidator" where
  "example_validator =
     \<lparr>self_jvm_started = True, self_jar_path = ''circe.jar'',
      self_dependencies_path = ''dependencies'', self_checker = example_check,
      self_cohort_expression_class = example_fromJson\<rparr>"

definition crashing_validator :: "string CohortValidator" where
  "crashing_validator =
     example_validator\<lparr>self_checker := (\<lambda>ce. Inl ''java.lang.NullPointerException'')\<rparr>"

text \<open>A checker that reports nothing, whatever the expression.\<close>

definition silent_validator :: "string CohortValidator" where
  "silent_validator = example_validator\<lparr>self_checker := (\<lambda>ce. Inr [])\<rparr>"

text \<open>A rule of the checker: its identifier and the findings it reports on an expression.\<close>

type_synonym 'e rule = "string \<times> ('e \<Rightarrow> java_warning list)"

text \<open>
  Modelled from the spec: the engine of section 4.4, which is not under \<open>src/\<close>. It runs
  a catalogue of rules and concatenates their findings in the order of the catalogue;
  the cross-reference index a rule is given is built from the expression, so a rule is
  a function of the expression here.
\<close>

definition catalog_check :: "'e rule list \<Rightarrow> 'e \<Rightarrow> string + java_warning list" where
  "catalog_check rules e = Inr (concat (map (\<lambda>r. snd r e) rules))"

text \<open>
  Modelled from the spec: the originating rules of a finding, which the engine of section
  4.4 knows and which is not under \<open>src/\<close>. They are the rules whose output holds the
  finding. The wrapper reads no rule identifier from a finding, so \<open>java_warning\<close> has
  none.
\<close>

definition originating_rules :: "'e rule list \<Rightarrow> 'e \<Rightarrow> java_warning \<Rightarrow> string list" where
  "originating_rules rules e jw = map fst (filter (\<lambda>r. jw \<in> set (snd r e)) rules)"

text \<open>Two rules whose findings are objects of the same Java class.\<close>

definition two_rules :: "string rule list" where
  "two_rules =
     [(''InitialEventCheck'', \<lambda>e. [example_findings ! 1]),
      (''RangeCheck'', \<lambda>e. [example_findings ! 3])]"

definition catalog_validator :: "string CohortValidator" where
  "catalog_validator = example_validator\<lparr>self_checker := catalog_check two_rules\<rparr>"

text \<open>A cohort whose only criterion refers to concept set 99, with no concept set declared.\<close>

definition dangling_cohort :: pyval where
  "dangling_cohort =
     PyDict
       [(''ConceptSets'', PyList []),
        (''PrimaryCriteria'',
           PyDict
             [(''CriteriaList'',
                 PyList [PyDict [(''ConditionOccurrence'',
                                   PyDict [(''CodesetId'', PyInt 99)])]])])]"

definition dangling_document :: string where
  \<open>dangling_document =
     ''{"ConceptSets": [], "PrimaryCriteria": {"CriteriaList": [{"ConditionOccurrence": {"CodesetId": 99}}]}}''\<close>



text \<open>
  A file system with the one file \<open>cohort.json\<close>, holding \<open>{}\<close>, and no directory
  \<open>reports\<close>; a JVM that starts and loads the stand-in classes; standard streams that
  flush. In \<open>broken_pipe_world\<close> the flush at exit fails.
\<close>

definition example_read_file :: "string \<Rightarrow> pyexn + string" where
  "example_read_file p =
     (if p = ''cohort.json'' then Inr ''{}''
      else if p = ''reports'' then Inl (OSError ''[Errno 21] Is a directory'')
      else Inl (FileNotFoundError ''[Errno 2] No such file or directory''))"



text \<open>The test of line 176 on a severity string: uppercased, it is one of the two.\<close>

abbreviation error_severity :: "string \<Rightarrow> bool" where
  "error_severity s \<equiv> upper s \<in> {''CRITICAL'', ''ERROR''}"


section \<open>The loop and the \<open>try\<close> block\<close>

lemma getitem_severity: "getitem (warning_dict jw) ''severity'' = Inr (severity_str jw)"
  by (simp add: getitem_def warning_dict_def)

lemma loop_body_eq:
  "loop_body jw fr =
     (Inr (), if error_severity (severity_str jw)
              then fr\<lparr>errors := errors fr @ [warning_dict jw]\<rparr>
              else fr\<lparr>warnings := warnings fr @ [warning_dict jw]\<rparr>)"
  by (simp add: loop_body_def getitem_severity Let_def)

lemma for_loop_eq:
  "for_loop jws fr =
     (Inr (),
      fr\<lparr>warnings := warnings fr
             @ map warning_dict (filter (\<lambda>jw. \<not> error_severity (severity_str jw)) jws),
         errors := errors fr
             @ map warning_dict (filter (\<lambda>jw. error_severity (severity_str jw)) jws)\<rparr>)"
proof (induction jws arbitrary: fr)
  case Nil
  show ?case by simp
next
  case (Cons jw jws)
  show ?case by (simp add: loop_body_eq Cons.IH)
qed

lemma validate_cohort_try_checked:
  assumes "json_dumps (cohort_json fr) = Inr doc"
    and "self_cohort_expression_class (self fr) doc = Inr ce"
    and "self_checker (self fr) ce = Inr jws"
  shows "validate_cohort_try fr =
           (Inr (map warning_dict (filter (\<lambda>jw. \<not> error_severity (severity_str jw)) jws),
                 map warning_dict (filter (\<lambda>jw. error_severity (severity_str jw)) jws)),
            fr\<lparr>warnings := map warning_dict (filter (\<lambda>jw. \<not> error_severity (severity_str jw)) jws),
               errors := map warning_dict (filter (\<lambda>jw. error_severity (severity_str jw)) jws),
               java_calls := java_calls fr @ [FromJson doc, Check ce]\<rparr>)"
  using assms by (simp add: validate_cohort_try_def Let_def for_loop_eq)

lemma validate_cohort_try_dumps_fails:
  assumes "json_dumps (cohort_json fr) = Inl e"
  shows "validate_cohort_try fr = (Inl e, fr)"
  using assms by (simp add: validate_cohort_try_def)

lemma validate_cohort_try_parse_fails:
  assumes "json_dumps (cohort_json fr) = Inr doc"
    and "self_cohort_expression_class (self fr) doc = Inl m"
  shows "validate_cohort_try fr =
           (Inl (JException m), fr\<lparr>java_calls := java_calls fr @ [FromJson doc]\<rparr>)"
  using assms by (simp add: validate_cohort_try_def Let_def)

lemma validate_cohort_try_check_fails:
  assumes "json_dumps (cohort_json fr) = Inr doc"
    and "self_cohort_expression_class (self fr) doc = Inr ce"
    and "self_checker (self fr) ce = Inl m"
  shows "validate_cohort_try fr =
           (Inl (JException m), fr\<lparr>java_calls := java_calls fr @ [FromJson doc, Check ce]\<rparr>)"
  using assms by (simp add: validate_cohort_try_def Let_def)

lemma validate_cohort_checked:
  assumes "json_dumps arg = Inr doc"
    and "self_cohort_expression_class slf doc = Inr ce"
    and "self_checker slf ce = Inr jws"
  shows "validate_cohort slf arg =
           Inr (map warning_dict (filter (\<lambda>jw. \<not> error_severity (severity_str jw)) jws),
                map warning_dict (filter (\<lambda>jw. error_severity (severity_str jw)) jws))"
  using assms
  by (simp add: validate_cohort_def validate_cohort_frame_def call_frame_def
      validate_cohort_try_checked)

lemma iterencode_not_JSONDecodeError:
  "iterencode ind lvl v \<noteq> Inl (JSONDecodeError m)"
  "iterencode_list ind lvl vs \<noteq> Inl (JSONDecodeError m)"
  "iterencode_dict ind lvl kvs \<noteq> Inl (JSONDecodeError m)"
  by (induction ind lvl v and ind lvl vs and ind lvl kvs
      rule: iterencode_iterencode_list_iterencode_dict.induct)
     (auto split: sum.splits)

lemma iterencode_raises_TypeError:
  "iterencode ind lvl v = Inl e \<Longrightarrow> \<exists>m. e = TypeError m"
  "iterencode_list ind lvl vs = Inl e \<Longrightarrow> \<exists>m. e = TypeError m"
  "iterencode_dict ind lvl kvs = Inl e \<Longrightarrow> \<exists>m. e = TypeError m"
  by (induction ind lvl v and ind lvl vs and ind lvl kvs
      rule: iterencode_iterencode_list_iterencode_dict.induct)
     (auto split: sum.splits if_splits)

lemma validate_cohort_try_cases:
  obtains (dumps) m where "json_dumps (cohort_json fr) = Inl (TypeError m)"
      "validate_cohort_try fr = (Inl (TypeError m), fr)"
  | (parse) doc m where "json_dumps (cohort_json fr) = Inr doc"
      "self_cohort_expression_class (self fr) doc = Inl m"
      "validate_cohort_try fr = (Inl (JException m), fr\<lparr>java_calls := java_calls fr @ [FromJson doc]\<rparr>)"
  | (check) doc ce m where "json_dumps (cohort_json fr) = Inr doc"
      "self_cohort_expression_class (self fr) doc = Inr ce"
      "self_checker (self fr) ce = Inl m"
      "validate_cohort_try fr = (Inl (JException m), fr\<lparr>java_calls := java_calls fr @ [FromJson doc, Check ce]\<rparr>)"
  | (ok) doc ce jws where "json_dumps (cohort_json fr) = Inr doc"
      "self_cohort_expression_class (self fr) doc = Inr ce"
      "self_checker (self fr) ce = Inr jws"
      "validate_cohort_try fr =
           (Inr (map warning_dict (filter (\<lambda>jw. \<not> error_severity (severity_str jw)) jws),
                 map warning_dict (filter (\<lambda>jw. error_severity (severity_str jw)) jws)),
            fr\<lparr>warnings := map warning_dict (filter (\<lambda>jw. \<not> error_severity (severity_str jw)) jws),
               errors := map warning_dict (filter (\<lambda>jw. error_severity (severity_str jw)) jws),
               java_calls := java_calls fr @ [FromJson doc, Check ce]\<rparr>)"
proof (cases "json_dumps (cohort_json fr)")
  case (Inl e)
  then obtain m where "e = TypeError m"
    using iterencode_raises_TypeError(1)[of None 0 "cohort_json fr" e]
    by (auto simp add: json_dumps_def)
  with Inl show ?thesis using dumps validate_cohort_try_dumps_fails by metis
next
  case (Inr doc)
  show ?thesis
  proof (cases "self_cohort_expression_class (self fr) doc")
    case (Inl m)
    with Inr show ?thesis using parse validate_cohort_try_parse_fails by metis
  next
    case ce: (Inr ce)
    show ?thesis
    proof (cases "self_checker (self fr) ce")
      case (Inl m)
      with Inr ce show ?thesis using check validate_cohort_try_check_fails by metis
    next
      case jws: (Inr jws)
      with Inr ce show ?thesis using ok validate_cohort_try_checked by metis
    qed
  qed
qed

lemma validate_cohort_frame_returns: "\<exists>r. fst (validate_cohort_frame fr) = Inr r"
  by (cases "validate_cohort_try fr"; cases "fst (validate_cohort_try fr)")
     (auto simp add: validate_cohort_frame_def)

lemma validate_cohort_frame_keeps:
  "self (snd (validate_cohort_frame fr)) = self fr \<and>
   cohort_json (snd (validate_cohort_frame fr)) = cohort_json fr"
  by (cases fr rule: validate_cohort_try_cases) (simp_all add: validate_cohort_frame_def)

lemma upper_INFO: "upper ''INFO'' = ''INFO''"
  by code_simp

lemma upper_WARNING: "upper ''WARNING'' = ''WARNING''"
  by code_simp

lemma upper_UNKNOWN: "upper ''UNKNOWN'' = ''UNKNOWN''"
  by code_simp

lemma warning_dict_severity: "map_of (warning_dict jw) ''severity'' = Some (severity_str jw)"
  by (simp add: warning_dict_def)

lemma warning_dict_eq_severity:
  "warning_dict a = warning_dict b \<Longrightarrow> severity_str a = severity_str b"
  by (simp add: warning_dict_def)

lemma in_filtered_iff:
  assumes "jw \<in> set jws"
  shows "warning_dict jw \<in> set (map warning_dict (filter (\<lambda>x. P (severity_str x)) jws))
           \<longleftrightarrow> P (severity_str jw)"
proof
  assume "warning_dict jw \<in> set (map warning_dict (filter (\<lambda>x. P (severity_str x)) jws))"
  then obtain x where x: "x \<in> set jws" "P (severity_str x)" "warning_dict x = warning_dict jw"
    by auto
  from x(3) have "severity_str x = severity_str jw" by (rule warning_dict_eq_severity)
  with x(2) show "P (severity_str jw)" by simp
next
  assume "P (severity_str jw)"
  with assms have "jw \<in> set (filter (\<lambda>x. P (severity_str x)) jws)" by simp
  then show "warning_dict jw \<in> set (map warning_dict (filter (\<lambda>x. P (severity_str x)) jws))"
    unfolding set_map by (rule imageI)
qed

lemma dumps_dangling: "json_dumps dangling_cohort = Inr dangling_document"
  by code_simp

lemma parse_dangling: "self_cohort_expression_class example_validator dangling_document = Inr dangling_document"
  by code_simp

lemma check_dangling: "self_checker example_validator dangling_document = Inr example_findings"
  by code_simp

section \<open>The claims\<close>

text \<open>
  C1. When the document is serialized, parsed and checked without an exception,
  \<open>validate_cohort\<close> returns the pair (warnings, errors) that partitions the findings of
  the checker in their order: a finding is in \<open>errors\<close> exactly when its severity string,
  uppercased, is \<open>ERROR\<close> or \<open>CRITICAL\<close>; a finding of severity \<open>INFO\<close> or
  \<open>WARNING\<close> is in \<open>warnings\<close>; the \<open>is_valid\<close> entry of the summary that \<open>main\<close>
  builds is true exactly when \<open>errors\<close> is empty; and the call returns, it does not raise.
\<close>

theorem classification_partition:
  assumes "json_dumps arg = Inr doc"
    and "self_cohort_expression_class slf doc = Inr ce"
    and "self_checker slf ce = Inr jws"
  shows "\<exists>ws es. validate_cohort slf arg = Inr (ws, es)
           \<and> es = map warning_dict (filter (\<lambda>jw. error_severity (severity_str jw)) jws)
           \<and> ws = map warning_dict (filter (\<lambda>jw. \<not> error_severity (severity_str jw)) jws)
           \<and> (\<forall>jw \<in> set jws. warning_dict jw \<in> set es \<longleftrightarrow> error_severity (severity_str jw))
           \<and> (\<forall>jw \<in> set jws. severity_str jw = ''INFO'' \<or> severity_str jw = ''WARNING''
                  \<longrightarrow> warning_dict jw \<in> set ws)
           \<and> (is_valid (result_summary (make_result p ws es)) \<longleftrightarrow> es = [])"
proof -
  let ?es = "map warning_dict (filter (\<lambda>jw. error_severity (severity_str jw)) jws)"
  let ?ws = "map warning_dict (filter (\<lambda>jw. \<not> error_severity (severity_str jw)) jws)"
  have r: "validate_cohort slf arg = Inr (?ws, ?es)"
    using assms by (rule validate_cohort_checked)
  have e: "\<forall>jw \<in> set jws. warning_dict jw \<in> set ?es \<longleftrightarrow> error_severity (severity_str jw)"
    by (intro ballI in_filtered_iff)
  have w: "\<forall>jw \<in> set jws. severity_str jw = ''INFO'' \<or> severity_str jw = ''WARNING''
                  \<longrightarrow> warning_dict jw \<in> set ?ws"
  proof (intro ballI impI)
    fix jw assume jw: "jw \<in> set jws"
      and s: "severity_str jw = ''INFO'' \<or> severity_str jw = ''WARNING''"
    from s have "\<not> error_severity (severity_str jw)"
      by (auto simp add: upper_INFO upper_WARNING)
    with in_filtered_iff[OF jw, of "\<lambda>s. \<not> error_severity s"]
    show "warning_dict jw \<in> set ?ws" by simp
  qed
  have v: "is_valid (result_summary (make_result p ?ws ?es)) \<longleftrightarrow> ?es = []"
    by (simp add: make_result_def)
  show ?thesis
    by (intro exI[of _ ?ws] exI[of _ ?es] conjI r e w v refl)
qed

theorem classification_partition_witness:
  "json_dumps dangling_cohort = Inr dangling_document
   \<and> self_cohort_expression_class example_validator dangling_document = Inr dangling_document
   \<and> self_checker example_validator dangling_document = Inr example_findings
   \<and> (\<exists>ws es. validate_cohort example_validator dangling_cohort = Inr (ws, es)
         \<and> length ws = 3 \<and> length es = 2
         \<and> \<not> is_valid (result_summary (make_result ''cohort.json'' ws es)))"
proof -
  obtain ws es where c: "validate_cohort example_validator dangling_cohort = Inr (ws, es)
           \<and> es = map warning_dict (filter (\<lambda>jw. error_severity (severity_str jw)) example_findings)
           \<and> ws = map warning_dict (filter (\<lambda>jw. \<not> error_severity (severity_str jw)) example_findings)
           \<and> (\<forall>jw \<in> set example_findings. warning_dict jw \<in> set es \<longleftrightarrow> error_severity (severity_str jw))
           \<and> (\<forall>jw \<in> set example_findings. severity_str jw = ''INFO'' \<or> severity_str jw = ''WARNING''
                  \<longrightarrow> warning_dict jw \<in> set ws)
           \<and> (is_valid (result_summary (make_result ''cohort.json'' ws es)) \<longleftrightarrow> es = [])"
    using classification_partition [OF dumps_dangling parse_dangling check_dangling, of "''cohort.json''"]
    by (elim exE)
  note r = c[THEN conjunct1]
  note e = c[THEN conjunct2, THEN conjunct1]
  note w = c[THEN conjunct2, THEN conjunct2, THEN conjunct1]
  note v = c[THEN conjunct2, THEN conjunct2, THEN conjunct2, THEN conjunct2, THEN conjunct2]
  have "length (map warning_dict (filter (\<lambda>jw. error_severity (severity_str jw)) example_findings)) = 2"
    by code_simp
  with e have le: "length es = 2" by (simp only:)
  have "length (map warning_dict (filter (\<lambda>jw. \<not> error_severity (severity_str jw)) example_findings)) = 3"
    by code_simp
  with w have lw: "length ws = 3" by (simp only:)
  from le have "es \<noteq> []" by auto
  with v have nv: "\<not> is_valid (result_summary (make_result ''cohort.json'' ws es))" by simp
  from r lw le nv show ?thesis
    by (intro conjI exI[of _ ws] exI[of _ es] dumps_dangling parse_dangling check_dangling)
qed

lemma validate_cohort_frame_cases:
  obtains (dumps) m where "json_dumps (cohort_json fr) = Inl (TypeError m)"
      "validate_cohort_frame fr =
         (Inr ([], [[(''message'', ''Validation error: '' @ m), (''severity'', ''CRITICAL''),
                     (''type'', ''VALIDATION_ERROR'')]]), fr)"
  | (parse) doc m where "json_dumps (cohort_json fr) = Inr doc"
      "self_cohort_expression_class (self fr) doc = Inl m"
      "validate_cohort_frame fr =
         (Inr ([], [[(''message'', ''Validation error: '' @ m), (''severity'', ''CRITICAL''),
                     (''type'', ''VALIDATION_ERROR'')]]),
          fr\<lparr>java_calls := java_calls fr @ [FromJson doc]\<rparr>)"
  | (check) doc ce m where "json_dumps (cohort_json fr) = Inr doc"
      "self_cohort_expression_class (self fr) doc = Inr ce"
      "self_checker (self fr) ce = Inl m"
      "validate_cohort_frame fr =
         (Inr ([], [[(''message'', ''Validation error: '' @ m), (''severity'', ''CRITICAL''),
                     (''type'', ''VALIDATION_ERROR'')]]),
          fr\<lparr>java_calls := java_calls fr @ [FromJson doc, Check ce]\<rparr>)"
  | (ok) doc ce jws where "json_dumps (cohort_json fr) = Inr doc"
      "self_cohort_expression_class (self fr) doc = Inr ce"
      "self_checker (self fr) ce = Inr jws"
      "validate_cohort_frame fr =
           (Inr (map warning_dict (filter (\<lambda>jw. \<not> error_severity (severity_str jw)) jws),
                 map warning_dict (filter (\<lambda>jw. error_severity (severity_str jw)) jws)),
            fr\<lparr>warnings := map warning_dict (filter (\<lambda>jw. \<not> error_severity (severity_str jw)) jws),
               errors := map warning_dict (filter (\<lambda>jw. error_severity (severity_str jw)) jws),
               java_calls := java_calls fr @ [FromJson doc, Check ce]\<rparr>)"
proof (cases fr rule: validate_cohort_try_cases)
  case (dumps m)
  from dumps(2) have "validate_cohort_frame fr =
         (Inr ([], [[(''message'', ''Validation error: '' @ m), (''severity'', ''CRITICAL''),
                     (''type'', ''VALIDATION_ERROR'')]]), fr)"
    by (simp add: validate_cohort_frame_def except_clauses_def)
  with dumps(1) show ?thesis by (rule that(1))
next
  case (parse doc m)
  from parse(3) have "validate_cohort_frame fr =
         (Inr ([], [[(''message'', ''Validation error: '' @ m), (''severity'', ''CRITICAL''),
                     (''type'', ''VALIDATION_ERROR'')]]),
          fr\<lparr>java_calls := java_calls fr @ [FromJson doc]\<rparr>)"
    by (simp add: validate_cohort_frame_def except_clauses_def)
  with parse(1,2) show ?thesis by (rule that(2))
next
  case (check doc ce m)
  from check(4) have "validate_cohort_frame fr =
         (Inr ([], [[(''message'', ''Validation error: '' @ m), (''severity'', ''CRITICAL''),
                     (''type'', ''VALIDATION_ERROR'')]]),
          fr\<lparr>java_calls := java_calls fr @ [FromJson doc, Check ce]\<rparr>)"
    by (simp add: validate_cohort_frame_def except_clauses_def)
  with check(1,2,3) show ?thesis by (rule that(3))
next
  case (ok doc ce jws)
  from ok(4) have "validate_cohort_frame fr =
           (Inr (map warning_dict (filter (\<lambda>jw. \<not> error_severity (severity_str jw)) jws),
                 map warning_dict (filter (\<lambda>jw. error_severity (severity_str jw)) jws)),
            fr\<lparr>warnings := map warning_dict (filter (\<lambda>jw. \<not> error_severity (severity_str jw)) jws),
               errors := map warning_dict (filter (\<lambda>jw. error_severity (severity_str jw)) jws),
               java_calls := java_calls fr @ [FromJson doc, Check ce]\<rparr>)"
    by (simp add: validate_cohort_frame_def)
  with ok(1,2,3) show ?thesis by (rule that(4))
qed

lemma call_frame_simps:
  "self (call_frame slf arg) = slf" "cohort_json (call_frame slf arg) = arg"
  "java_calls (call_frame slf arg) = []"
  by (simp_all add: call_frame_def)

text \<open>
  C9. Under the same conditions, a finding of the checker whose severity string,
  uppercased, is neither \<open>CRITICAL\<close> nor \<open>ERROR\<close> is in \<open>warnings\<close> and not in
  \<open>errors\<close>; so is a finding without the attribute \<open>getSeverity\<close>, whose severity is
  written \<open>UNKNOWN\<close>; every finding is in exactly one of the two lists, and the lists
  together are as long as the list of findings.
\<close>

theorem non_error_findings_are_warnings:
  assumes "json_dumps arg = Inr doc"
    and "self_cohort_expression_class slf doc = Inr ce"
    and "self_checker slf ce = Inr jws"
  shows "\<exists>ws es. validate_cohort slf arg = Inr (ws, es)
           \<and> (\<forall>jw \<in> set jws. \<not> error_severity (severity_str jw)
                  \<longrightarrow> warning_dict jw \<in> set ws \<and> warning_dict jw \<notin> set es)
           \<and> (\<forall>jw \<in> set jws. getSeverity jw = None
                  \<longrightarrow> map_of (warning_dict jw) ''severity'' = Some ''UNKNOWN''
                      \<and> warning_dict jw \<in> set ws \<and> warning_dict jw \<notin> set es)
           \<and> (\<forall>jw \<in> set jws. (warning_dict jw \<in> set ws) \<noteq> (warning_dict jw \<in> set es))
           \<and> length ws + length es = length jws"
proof -
  let ?es = "map warning_dict (filter (\<lambda>jw. error_severity (severity_str jw)) jws)"
  let ?ws = "map warning_dict (filter (\<lambda>jw. \<not> error_severity (severity_str jw)) jws)"
  have r: "validate_cohort slf arg = Inr (?ws, ?es)"
    using assms by (rule validate_cohort_checked)
  have ie: "warning_dict jw \<in> set ?es \<longleftrightarrow> error_severity (severity_str jw)"
    if "jw \<in> set jws" for jw
    using that by (rule in_filtered_iff)
  have iw: "warning_dict jw \<in> set ?ws \<longleftrightarrow> \<not> error_severity (severity_str jw)"
    if "jw \<in> set jws" for jw
    using in_filtered_iff[OF that, of "\<lambda>s. \<not> error_severity s"] by simp
  have a: "\<forall>jw \<in> set jws. \<not> error_severity (severity_str jw)
                  \<longrightarrow> warning_dict jw \<in> set ?ws \<and> warning_dict jw \<notin> set ?es"
    using ie iw by simp
  have b: "\<forall>jw \<in> set jws. getSeverity jw = None
                  \<longrightarrow> map_of (warning_dict jw) ''severity'' = Some ''UNKNOWN''
                      \<and> warning_dict jw \<in> set ?ws \<and> warning_dict jw \<notin> set ?es"
  proof (intro ballI impI)
    fix jw assume jw: "jw \<in> set jws" and n: "getSeverity jw = None"
    from n have s: "severity_str jw = ''UNKNOWN''" by (simp add: severity_str_def)
    then have "\<not> error_severity (severity_str jw)" by (simp add: upper_UNKNOWN)
    with ie[OF jw] iw[OF jw] s warning_dict_severity[of jw]
    show "map_of (warning_dict jw) ''severity'' = Some ''UNKNOWN''
            \<and> warning_dict jw \<in> set ?ws \<and> warning_dict jw \<notin> set ?es"
      by simp
  qed
  have c: "\<forall>jw \<in> set jws. (warning_dict jw \<in> set ?ws) \<noteq> (warning_dict jw \<in> set ?es)"
    using ie iw by simp
  have d: "length ?ws + length ?es = length jws"
    using sum_length_filter_compl[of "\<lambda>jw. error_severity (severity_str jw)" jws] by simp
  show ?thesis
    by (intro exI[of _ ?ws] exI[of _ ?es] conjI r a b c d)
qed

theorem non_error_findings_are_warnings_witness:
  "json_dumps dangling_cohort = Inr dangling_document
   \<and> self_cohort_expression_class example_validator dangling_document = Inr dangling_document
   \<and> self_checker example_validator dangling_document = Inr example_findings
   \<and> example_findings ! 2 \<in> set example_findings
   \<and> getSeverity (example_findings ! 2) = None
   \<and> (\<exists>ws es. validate_cohort example_validator dangling_cohort = Inr (ws, es)
         \<and> warning_dict (example_findings ! 2) \<in> set ws
         \<and> warning_dict (example_findings ! 2) \<notin> set es
         \<and> length ws + length es = 5)"
proof -
  have m: "example_findings ! 2 \<in> set example_findings"
    by (simp add: example_findings_def)
  have n: "getSeverity (example_findings ! 2) = None"
    by (simp add: example_findings_def)
  have l: "length example_findings = 5"
    by (simp add: example_findings_def)
  obtain ws es where c: "validate_cohort example_validator dangling_cohort = Inr (ws, es)
           \<and> (\<forall>jw \<in> set example_findings. \<not> error_severity (severity_str jw)
                  \<longrightarrow> warning_dict jw \<in> set ws \<and> warning_dict jw \<notin> set es)
           \<and> (\<forall>jw \<in> set example_findings. getSeverity jw = None
                  \<longrightarrow> map_of (warning_dict jw) ''severity'' = Some ''UNKNOWN''
                      \<and> warning_dict jw \<in> set ws \<and> warning_dict jw \<notin> set es)
           \<and> (\<forall>jw \<in> set example_findings. (warning_dict jw \<in> set ws) \<noteq> (warning_dict jw \<in> set es))
           \<and> length ws + length es = length example_findings"
    using non_error_findings_are_warnings [OF dumps_dangling parse_dangling check_dangling]
    by (elim exE)
  note r = c[THEN conjunct1]
  note u = c[THEN conjunct2, THEN conjunct2, THEN conjunct1, rule_format, OF m n]
  note d = c[THEN conjunct2, THEN conjunct2, THEN conjunct2, THEN conjunct2]
  from u have u1: "warning_dict (example_findings ! 2) \<in> set ws"
    and u2: "warning_dict (example_findings ! 2) \<notin> set es" by simp_all
  from d l have d': "length ws + length es = 5" by simp
  from r u1 u2 d' show ?thesis
    by (intro conjI exI[of _ ws] exI[of _ es] dumps_dangling parse_dangling check_dangling m n)
qed

lemma validate_cohort_dumps_fails:
  assumes "json_dumps arg = Inl e"
  shows "\<exists>m. validate_cohort slf arg =
           Inr ([], [[(''message'', ''Validation error: '' @ m), (''severity'', ''CRITICAL''),
                      (''type'', ''VALIDATION_ERROR'')]])
         \<and> java_calls (snd (validate_cohort_frame (call_frame slf arg))) = []"
proof (cases "call_frame slf arg" rule: validate_cohort_frame_cases)
  case (dumps m)
  then show ?thesis by (auto simp add: validate_cohort_def call_frame_simps)
qed (use assms in \<open>simp_all add: call_frame_simps\<close>)

lemma validate_cohort_parse_fails:
  assumes "json_dumps arg = Inr doc" and "self_cohort_expression_class slf doc = Inl m"
  shows "validate_cohort slf arg =
           Inr ([], [[(''message'', ''Validation error: '' @ m), (''severity'', ''CRITICAL''),
                      (''type'', ''VALIDATION_ERROR'')]])
         \<and> java_calls (snd (validate_cohort_frame (call_frame slf arg))) = [FromJson doc]"
proof (cases "call_frame slf arg" rule: validate_cohort_frame_cases)
  case (parse doc' m')
  with assms show ?thesis by (simp add: validate_cohort_def call_frame_simps)
qed (use assms in \<open>simp_all add: call_frame_simps\<close>)

lemma validate_cohort_check_fails:
  assumes "json_dumps arg = Inr doc" and "self_cohort_expression_class slf doc = Inr ce"
    and "self_checker slf ce = Inl m"
  shows "validate_cohort slf arg =
           Inr ([], [[(''message'', ''Validation error: '' @ m), (''severity'', ''CRITICAL''),
                      (''type'', ''VALIDATION_ERROR'')]])"
proof (cases "call_frame slf arg" rule: validate_cohort_frame_cases)
  case (check doc' ce' m')
  with assms show ?thesis by (simp add: validate_cohort_def call_frame_simps)
qed (use assms in \<open>simp_all add: call_frame_simps\<close>)

text \<open>
  C2. When the input is malformed, that is, \<open>json.dumps\<close> raises on it or
  \<open>CohortExpression.fromJson\<close> throws on the document, \<open>validate_cohort\<close> returns no
  warning and exactly one error, of severity \<open>CRITICAL\<close> and of a type among
  \<open>PARSE_ERROR\<close> and \<open>VALIDATION_ERROR\<close> (it is always \<open>VALIDATION_ERROR\<close>: nothing
  in the \<open>try\<close> block raises \<open>json.JSONDecodeError\<close>, the one class that the clause
  writing \<open>JSON_ERROR\<close> catches). The checker is not called: no \<open>Check\<close> is in the log
  of Java calls, and the result is the same whatever the checker is.
\<close>

theorem malformed_input_short_circuits:
  assumes "(\<exists>e. json_dumps arg = Inl e)
           \<or> (\<exists>doc m. json_dumps arg = Inr doc \<and> self_cohort_expression_class slf doc = Inl m)"
  shows "\<exists>msg ty. validate_cohort slf arg =
             Inr ([], [[(''message'', msg), (''severity'', ''CRITICAL''), (''type'', ty)]])
           \<and> ty \<in> {''PARSE_ERROR'', ''VALIDATION_ERROR''}
           \<and> ty = ''VALIDATION_ERROR''
           \<and> (\<forall>ce. Check ce \<notin> set (java_calls (snd (validate_cohort_frame (call_frame slf arg)))))
           \<and> (\<forall>ck. validate_cohort (slf\<lparr>self_checker := ck\<rparr>) arg = validate_cohort slf arg)"
  using assms
proof (elim disjE exE conjE)
  fix e assume d: "json_dumps arg = Inl e"
  from validate_cohort_dumps_fails[OF d, of slf] obtain m where
    r: "validate_cohort slf arg =
           Inr ([], [[(''message'', ''Validation error: '' @ m), (''severity'', ''CRITICAL''),
                      (''type'', ''VALIDATION_ERROR'')]])"
    and c: "java_calls (snd (validate_cohort_frame (call_frame slf arg))) = []"
    by (elim exE conjE)
  have k: "validate_cohort (slf\<lparr>self_checker := ck\<rparr>) arg = validate_cohort slf arg" for ck
    using d by (simp add: validate_cohort_def validate_cohort_frame_def call_frame_def
        validate_cohort_try_dumps_fails)
  from r c k show ?thesis by simp
next
  fix doc m assume d: "json_dumps arg = Inr doc"
    and p: "self_cohort_expression_class slf doc = Inl m"
  note r = validate_cohort_parse_fails[OF d p, THEN conjunct1]
  note c = validate_cohort_parse_fails[OF d p, THEN conjunct2]
  have k: "validate_cohort (slf\<lparr>self_checker := ck\<rparr>) arg = validate_cohort slf arg" for ck
  proof -
    have "self_cohort_expression_class (slf\<lparr>self_checker := ck\<rparr>) doc = Inl m"
      using p by simp
    from validate_cohort_parse_fails[OF d this, THEN conjunct1] r show ?thesis by simp
  qed
  from r c k show ?thesis by simp
qed

lemma dumps_bad_text: "json_dumps (PyStr ''{bad'') = Inr (encode_basestring_ascii ''{bad'')"
  by (simp add: json_dumps_def)

lemma parse_bad_text:
  "self_cohort_expression_class example_validator (encode_basestring_ascii ''{bad'')
     = Inl ''Cannot construct instance of CohortExpression''"
  by (simp add: example_validator_def example_fromJson_def encode_basestring_ascii_def)

theorem malformed_input_short_circuits_witness:
  "json_dumps (PyStr ''{bad'') = Inr (encode_basestring_ascii ''{bad'')
   \<and> self_cohort_expression_class example_validator (encode_basestring_ascii ''{bad'')
       = Inl ''Cannot construct instance of CohortExpression''
   \<and> (\<exists>msg. validate_cohort example_validator (PyStr ''{bad'') =
         Inr ([], [[(''message'', msg), (''severity'', ''CRITICAL''),
                    (''type'', ''VALIDATION_ERROR'')]]))"
proof -
  have h: "(\<exists>e. json_dumps (PyStr ''{bad'') = Inl e)
           \<or> (\<exists>doc m. json_dumps (PyStr ''{bad'') = Inr doc
                 \<and> self_cohort_expression_class example_validator doc = Inl m)"
    using dumps_bad_text parse_bad_text by blast
  from malformed_input_short_circuits[OF h]
  have "\<exists>msg. validate_cohort example_validator (PyStr ''{bad'') =
         Inr ([], [[(''message'', msg), (''severity'', ''CRITICAL''),
                    (''type'', ''VALIDATION_ERROR'')]])"
    by (elim exE conjE) (intro exI, simp)
  then show ?thesis
    by (intro conjI dumps_bad_text parse_bad_text)
qed

lemma set_partition_findings:
  "set (map warning_dict (filter (\<lambda>jw. \<not> P (severity_str jw)) jws))
     \<union> set (map warning_dict (filter (\<lambda>jw. P (severity_str jw)) jws))
   = warning_dict ` set jws"
  by auto

text \<open>
  A dangling reference does not by itself make \<open>validate_cohort\<close> report a finding:
  with a checker that reports nothing on the expression, the cohort whose criterion
  refers to the undeclared concept set 99 is returned with no warning and no error.
\<close>

theorem validate_cohort_never_raises_counterexample:
  "json_dumps dangling_cohort = Inr dangling_document
   \<and> self_cohort_expression_class silent_validator dangling_document = Inr dangling_document
   \<and> self_checker silent_validator dangling_document = Inr []
   \<and> validate_cohort silent_validator dangling_cohort = Inr ([], [])"
proof (intro conjI)
  show "json_dumps dangling_cohort = Inr dangling_document"
    by (rule dumps_dangling)
  show "self_cohort_expression_class silent_validator dangling_document = Inr dangling_document"
    by (simp add: silent_validator_def parse_dangling)
  show "self_checker silent_validator dangling_document = Inr []"
    by (simp add: silent_validator_def)
  show "validate_cohort silent_validator dangling_cohort = Inr ([], [])"
    by code_simp
qed

text \<open>
  C3, as the code has it. \<open>validate_cohort\<close> returns a pair for every receiver and every
  argument; it never raises. For a document the parser accepts, such as the cohort whose
  criterion refers to the undeclared concept set 99, the call completes whatever the
  checker does with the expression: if the checker throws, the pair holds one
  \<open>CRITICAL\<close> finding of type \<open>VALIDATION_ERROR\<close> with the text of what was thrown, and
  if the checker returns findings, the pair holds exactly these, none when there are
  none. The wrapper has no test of its own for a dangling reference.
\<close>

theorem validate_cohort_never_raises:
  "(\<exists>ws es. validate_cohort slf arg = Inr (ws, es))
   \<and> (\<forall>doc ce. json_dumps arg = Inr doc \<and> self_cohort_expression_class slf doc = Inr ce \<longrightarrow>
          (\<forall>m. self_checker slf ce = Inl m \<longrightarrow>
             validate_cohort slf arg =
               Inr ([], [[(''message'', ''Validation error: '' @ m), (''severity'', ''CRITICAL''),
                          (''type'', ''VALIDATION_ERROR'')]]))
        \<and> (\<forall>jws. self_checker slf ce = Inr jws \<longrightarrow>
             (\<exists>ws es. validate_cohort slf arg = Inr (ws, es)
                \<and> set ws \<union> set es = warning_dict ` set jws)))"
proof (intro conjI allI impI)
  from validate_cohort_frame_returns[of "call_frame slf arg"]
  show "\<exists>ws es. validate_cohort slf arg = Inr (ws, es)"
    by (auto simp add: validate_cohort_def)
next
  fix doc ce m
  assume a: "json_dumps arg = Inr doc \<and> self_cohort_expression_class slf doc = Inr ce"
    and c: "self_checker slf ce = Inl m"
  show "validate_cohort slf arg =
               Inr ([], [[(''message'', ''Validation error: '' @ m), (''severity'', ''CRITICAL''),
                          (''type'', ''VALIDATION_ERROR'')]])"
    by (rule validate_cohort_check_fails[OF a[THEN conjunct1] a[THEN conjunct2] c])
next
  fix doc ce jws
  assume a: "json_dumps arg = Inr doc \<and> self_cohort_expression_class slf doc = Inr ce"
    and c: "self_checker slf ce = Inr jws"
  from validate_cohort_checked[OF a[THEN conjunct1] a[THEN conjunct2] c]
    set_partition_findings[of error_severity jws]
  show "\<exists>ws es. validate_cohort slf arg = Inr (ws, es)
                \<and> set ws \<union> set es = warning_dict ` set jws"
    by (intro exI conjI) assumption+
qed

lemma check_crashing:
  "self_cohort_expression_class crashing_validator dangling_document = Inr dangling_document"
  "self_checker crashing_validator dangling_document = Inl ''java.lang.NullPointerException''"
  by (simp_all add: crashing_validator_def parse_dangling)

theorem validate_cohort_never_raises_witness:
  "json_dumps dangling_cohort = Inr dangling_document
   \<and> self_cohort_expression_class example_validator dangling_document = Inr dangling_document
   \<and> self_checker example_validator dangling_document = Inr example_findings
   \<and> (\<exists>ws es. validate_cohort example_validator dangling_cohort = Inr (ws, es)
         \<and> set ws \<union> set es = warning_dict ` set example_findings)
   \<and> self_cohort_expression_class crashing_validator dangling_document = Inr dangling_document
   \<and> self_checker crashing_validator dangling_document = Inl ''java.lang.NullPointerException''
   \<and> validate_cohort crashing_validator dangling_cohort =
        Inr ([], [[(''message'', ''Validation error: java.lang.NullPointerException''),
                   (''severity'', ''CRITICAL''), (''type'', ''VALIDATION_ERROR'')]])"
proof -
  note t1 = validate_cohort_never_raises[of example_validator dangling_cohort, THEN conjunct2,
      rule_format, OF conjI, OF dumps_dangling parse_dangling]
  note t2 = validate_cohort_never_raises[of crashing_validator dangling_cohort, THEN conjunct2,
      rule_format, OF conjI, OF dumps_dangling check_crashing(1)]
  from t1[THEN conjunct2, rule_format, OF check_dangling]
  have a: "\<exists>ws es. validate_cohort example_validator dangling_cohort = Inr (ws, es)
         \<and> set ws \<union> set es = warning_dict ` set example_findings" .
  from t2[THEN conjunct1, rule_format, OF check_crashing(2)]
  have b: "validate_cohort crashing_validator dangling_cohort =
        Inr ([], [[(''message'', ''Validation error: java.lang.NullPointerException''),
                   (''severity'', ''CRITICAL''), (''type'', ''VALIDATION_ERROR'')]])"
    by simp
  from a b show ?thesis
    by (intro conjI dumps_dangling parse_dangling check_dangling check_crashing)
qed

text \<open>
  C6. \<open>validate_cohort\<close> does not change its input. A call is a run over a frame that
  holds the receiver, the argument, the two local lists and the log of Java calls;
  \<open>json.dumps\<close> reads the argument, the Java classes are handed the text and the
  expression built from it, and the loop appends to the local lists only. In the frame
  the call leaves, the argument and the receiver are equal to what they were before.
\<close>

theorem validate_cohort_keeps_input:
  assumes "validate_cohort_frame fr = (r, fr')"
  shows "cohort_json fr' = cohort_json fr \<and> self fr' = self fr"
  using validate_cohort_frame_keeps[of fr] assms by simp

theorem validate_cohort_keeps_input_witness:
  "validate_cohort_frame (call_frame example_validator dangling_cohort)
     = (fst (validate_cohort_frame (call_frame example_validator dangling_cohort)),
        snd (validate_cohort_frame (call_frame example_validator dangling_cohort)))
   \<and> cohort_json (snd (validate_cohort_frame (call_frame example_validator dangling_cohort)))
       = dangling_cohort
   \<and> self (snd (validate_cohort_frame (call_frame example_validator dangling_cohort)))
       = example_validator
   \<and> length (errors (snd (validate_cohort_frame (call_frame example_validator dangling_cohort)))) = 2"
proof -
  let ?c = "validate_cohort_frame (call_frame example_validator dangling_cohort)"
  have h: "?c = (fst ?c, snd ?c)" by simp
  from validate_cohort_keeps_input[OF h]
  have k: "cohort_json (snd ?c) = dangling_cohort \<and> self (snd ?c) = example_validator"
    by (simp add: call_frame_simps)
  have "errors (snd ?c) = map warning_dict (filter (\<lambda>jw. error_severity (severity_str jw)) example_findings)"
  proof (cases "call_frame example_validator dangling_cohort" rule: validate_cohort_frame_cases)
    case (ok doc ce jws)
    with dumps_dangling parse_dangling check_dangling show ?thesis
      by (simp add: call_frame_simps)
  qed (use dumps_dangling parse_dangling check_dangling in \<open>simp_all add: call_frame_simps\<close>)
  moreover have "length (map warning_dict (filter (\<lambda>jw. error_severity (severity_str jw)) example_findings)) = 2"
    by code_simp
  ultimately have l: "length (errors (snd ?c)) = 2" by simp
  from h k l show ?thesis by (intro conjI) simp_all
qed









text \<open>
  The \<open>type\<close> of a finding does not tell which rule produced it: with a checker that
  runs two rules whose findings are objects of the same Java class, the two findings
  returned have different originating rules and the same \<open>type\<close>.
\<close>

theorem finding_fields_counterexample:
  "validate_cohort catalog_validator dangling_cohort
     = Inr ([], [warning_dict (example_findings ! 1), warning_dict (example_findings ! 3)])
   \<and> originating_rules two_rules dangling_document (example_findings ! 1) = [''InitialEventCheck'']
   \<and> originating_rules two_rules dangling_document (example_findings ! 3) = [''RangeCheck'']
   \<and> map_of (warning_dict (example_findings ! 1)) ''type'' = Some ''DefaultWarning''
   \<and> map_of (warning_dict (example_findings ! 3)) ''type'' = Some ''DefaultWarning''"
proof (intro conjI)
  show "validate_cohort catalog_validator dangling_cohort
     = Inr ([], [warning_dict (example_findings ! 1), warning_dict (example_findings ! 3)])"
    by code_simp
  show "originating_rules two_rules dangling_document (example_findings ! 1) = [''InitialEventCheck'']"
    by (simp add: originating_rules_def two_rules_def example_findings_def)
  show "originating_rules two_rules dangling_document (example_findings ! 3) = [''RangeCheck'']"
    by (simp add: originating_rules_def two_rules_def example_findings_def)
  show "map_of (warning_dict (example_findings ! 1)) ''type'' = Some ''DefaultWarning''"
    by (simp add: warning_dict_def example_findings_def)
  show "map_of (warning_dict (example_findings ! 3)) ''type'' = Some ''DefaultWarning''"
    by (simp add: warning_dict_def example_findings_def)
qed

text \<open>
  C7, as the code has it. Every finding in either list that \<open>validate_cohort\<close> returns
  is a dictionary with exactly the keys \<open>message\<close>, \<open>severity\<close> and \<open>type\<close>, in this
  order, each with a string value. It is either built from a finding of the checker, and
  then \<open>type\<close> is the simple name of the Java class of that finding, read from the
  object and not from its message, or it is the report of an exception, and then
  \<open>type\<close> is the constant \<open>VALIDATION_ERROR\<close>.
\<close>

theorem finding_fields:
  assumes "validate_cohort slf arg = Inr (ws, es)" and "d \<in> set ws \<union> set es"
  shows "map fst d = [''message'', ''severity'', ''type'']
         \<and> ((\<exists>doc ce jws jw. json_dumps arg = Inr doc
                 \<and> self_cohort_expression_class slf doc = Inr ce
                 \<and> self_checker slf ce = Inr jws \<and> jw \<in> set jws
                 \<and> d = [(''message'', toMessage jw), (''severity'', severity_str jw),
                        (''type'', getSimpleName jw)])
             \<or> (\<exists>msg. d = [(''message'', msg), (''severity'', ''CRITICAL''),
                            (''type'', ''VALIDATION_ERROR'')]))"
proof (cases "call_frame slf arg" rule: validate_cohort_frame_cases)
  case (dumps m)
  with assms show ?thesis by (auto simp add: validate_cohort_def)
next
  case (parse doc m)
  with assms show ?thesis by (auto simp add: validate_cohort_def)
next
  case (check doc ce m)
  with assms show ?thesis by (auto simp add: validate_cohort_def)
next
  case (ok doc ce jws)
  from ok(4) assms(1) have "set ws \<union> set es = warning_dict ` set jws"
    using set_partition_findings[of error_severity jws]
    by (simp add: validate_cohort_def)
  with assms(2) obtain jw where jw: "jw \<in> set jws" "d = warning_dict jw" by auto
  from jw(2) have k: "map fst d = [''message'', ''severity'', ''type'']"
    and e: "d = [(''message'', toMessage jw), (''severity'', severity_str jw),
                 (''type'', getSimpleName jw)]"
    by (simp_all add: warning_dict_def)
  from ok(1,2,3) jw(1) e
  have "\<exists>doc ce jws jw. json_dumps arg = Inr doc
                 \<and> self_cohort_expression_class slf doc = Inr ce
                 \<and> self_checker slf ce = Inr jws \<and> jw \<in> set jws
                 \<and> d = [(''message'', toMessage jw), (''severity'', severity_str jw),
                        (''type'', getSimpleName jw)]"
    unfolding call_frame_simps by (intro exI conjI)
  with k show ?thesis by simp
qed

theorem finding_fields_witness:
  "(\<exists>ws es. validate_cohort example_validator dangling_cohort = Inr (ws, es)
      \<and> warning_dict (example_findings ! 0) \<in> set ws \<union> set es)
   \<and> map fst (warning_dict (example_findings ! 0)) = [''message'', ''severity'', ''type'']
   \<and> map_of (warning_dict (example_findings ! 0)) ''type'' = Some ''ConceptSetWarning''"
proof -
  have m: "example_findings ! 0 \<in> set example_findings"
    by (simp add: example_findings_def)
  define ws where "ws = map warning_dict (filter (\<lambda>jw. \<not> error_severity (severity_str jw)) example_findings)"
  define es where "es = map warning_dict (filter (\<lambda>jw. error_severity (severity_str jw)) example_findings)"
  have r: "validate_cohort example_validator dangling_cohort = Inr (ws, es)"
    unfolding ws_def es_def
    by (rule validate_cohort_checked[OF dumps_dangling parse_dangling check_dangling])
  have u: "set ws \<union> set es = warning_dict ` set example_findings"
    unfolding ws_def es_def by (rule set_partition_findings)
  from u m have d: "warning_dict (example_findings ! 0) \<in> set ws \<union> set es" by simp
  from finding_fields[OF r d]
  have k: "map fst (warning_dict (example_findings ! 0)) = [''message'', ''severity'', ''type'']"
    by (rule conjunct1)
  have t: "map_of (warning_dict (example_findings ! 0)) ''type'' = Some ''ConceptSetWarning''"
    by (simp add: warning_dict_def example_findings_def)
  from r d have "\<exists>ws es. validate_cohort example_validator dangling_cohort = Inr (ws, es)
      \<and> warning_dict (example_findings ! 0) \<in> set ws \<union> set es"
    by (intro exI conjI)
  with k t show ?thesis by (intro conjI)
qed

lemma validate_cohort_file_read:
  assumes "rf p = Inr s"
  shows "validate_cohort_file_calls rf slf p =
           (fst (validate_cohort_frame (call_frame slf (PyStr s))),
            java_calls (snd (validate_cohort_frame (call_frame slf (PyStr s)))))"
proof -
  obtain r where "fst (validate_cohort_frame (call_frame slf (PyStr s))) = Inr r"
    using validate_cohort_frame_returns by blast
  with assms show ?thesis
    by (cases "validate_cohort_frame (call_frame slf (PyStr s))")
       (simp add: validate_cohort_file_calls_def validate_cohort_file_try_def)
qed

lemma validate_cohort_file_unread:
  assumes "rf p = Inl e"
  shows "validate_cohort_file_calls rf slf p = (Inr (file_except_clauses p e), [])"
  using assms by (simp add: validate_cohort_file_calls_def validate_cohort_file_try_def)

text \<open>
  C10. \<open>validate_cohort_file\<close> returns a pair for every path; it never raises. When
  opening or reading the file raises, the pair has no warning and exactly one error, of
  severity \<open>CRITICAL\<close> and type \<open>FILE_ERROR\<close>; for a file that does not exist the
  message is \<open>File not found:\<close> followed by the path.
\<close>

theorem validate_cohort_file_never_raises:
  "(\<exists>ws es. validate_cohort_file rf slf p = Inr (ws, es))
   \<and> (\<forall>e. rf p = Inl e \<longrightarrow>
          (\<exists>msg. validate_cohort_file rf slf p =
             Inr ([], [[(''message'', msg), (''severity'', ''CRITICAL''),
                        (''type'', ''FILE_ERROR'')]])))
   \<and> (\<forall>m. rf p = Inl (FileNotFoundError m) \<longrightarrow>
          validate_cohort_file rf slf p =
             Inr ([], [[(''message'', ''File not found: '' @ p), (''severity'', ''CRITICAL''),
                        (''type'', ''FILE_ERROR'')]]))"
proof (intro conjI allI impI)
  show "\<exists>ws es. validate_cohort_file rf slf p = Inr (ws, es)"
  proof (cases "rf p")
    case (Inl e)
    then show ?thesis
      by (cases "file_except_clauses p e")
         (simp add: validate_cohort_file_def validate_cohort_file_unread)
  next
    case (Inr body)
    obtain r where "fst (validate_cohort_frame (call_frame slf (PyStr body))) = Inr r"
      using validate_cohort_frame_returns by blast
    with Inr show ?thesis
      by (cases r) (simp add: validate_cohort_file_def validate_cohort_file_read)
  qed
next
  fix e assume "rf p = Inl e"
  then show "\<exists>msg. validate_cohort_file rf slf p =
             Inr ([], [[(''message'', msg), (''severity'', ''CRITICAL''),
                        (''type'', ''FILE_ERROR'')]])"
    by (cases e)
       (simp_all add: validate_cohort_file_def validate_cohort_file_unread file_except_clauses_def)
next
  fix m assume "rf p = Inl (FileNotFoundError m)"
  then show "validate_cohort_file rf slf p =
             Inr ([], [[(''message'', ''File not found: '' @ p), (''severity'', ''CRITICAL''),
                        (''type'', ''FILE_ERROR'')]])"
    by (simp add: validate_cohort_file_def validate_cohort_file_unread file_except_clauses_def)
qed

theorem validate_cohort_file_never_raises_witness:
  "example_read_file ''gone.json'' = Inl (FileNotFoundError ''[Errno 2] No such file or directory'')
   \<and> validate_cohort_file example_read_file example_validator ''gone.json'' =
        Inr ([], [[(''message'', ''File not found: gone.json''), (''severity'', ''CRITICAL''),
                   (''type'', ''FILE_ERROR'')]])
   \<and> example_read_file ''reports'' = Inl (OSError ''[Errno 21] Is a directory'')
   \<and> (\<exists>msg. validate_cohort_file example_read_file example_validator ''reports'' =
        Inr ([], [[(''message'', msg), (''severity'', ''CRITICAL''), (''type'', ''FILE_ERROR'')]]))"
proof -
  have g: "example_read_file ''gone.json'' = Inl (FileNotFoundError ''[Errno 2] No such file or directory'')"
    by (simp add: example_read_file_def)
  have d: "example_read_file ''reports'' = Inl (OSError ''[Errno 21] Is a directory'')"
    by (simp add: example_read_file_def)
  note t1 = validate_cohort_file_never_raises[of example_read_file example_validator "''gone.json''",
      THEN conjunct2, THEN conjunct2, rule_format, OF g]
  note t2 = validate_cohort_file_never_raises[of example_read_file example_validator "''reports''",
      THEN conjunct2, THEN conjunct1, rule_format, OF d]
  from t1 have a: "validate_cohort_file example_read_file example_validator ''gone.json'' =
        Inr ([], [[(''message'', ''File not found: gone.json''), (''severity'', ''CRITICAL''),
                   (''type'', ''FILE_ERROR'')]])"
    by simp
  from a t2 show ?thesis by (intro conjI g d)
qed

lemma dumps_str: "json_dumps (PyStr s) = Inr (encode_basestring_ascii s)"
  by (simp add: json_dumps_def)

lemma dumps_dict_starts_with_brace:
  assumes "json_dumps (PyDict kvs) = Inr doc"
  shows "hd doc = CHR ''{''"
  using assms by (auto simp add: json_dumps_def split: if_splits sum.splits)

lemma string_literal_starts_with_quote: "hd (encode_basestring_ascii s) = CHR 0x22"
  by (simp add: encode_basestring_ascii_def)

lemma first_java_call_of_text:
  "\<exists>rest. java_calls (snd (validate_cohort_frame (call_frame slf (PyStr s))))
            = FromJson (encode_basestring_ascii s) # rest"
proof (cases "call_frame slf (PyStr s)" rule: validate_cohort_frame_cases)
  case (dumps m)
  then show ?thesis by (simp add: call_frame_simps dumps_str)
next
  case (parse doc m)
  then show ?thesis by (simp add: call_frame_simps dumps_str)
next
  case (check doc ce m)
  then show ?thesis by (simp add: call_frame_simps dumps_str)
next
  case (ok doc ce jws)
  then show ?thesis by (simp add: call_frame_simps dumps_str)
qed

lemma file_differs_from_parsed:
  "validate_cohort_file example_read_file example_validator ''cohort.json''
     \<noteq> validate_cohort example_validator (PyDict [])"
  by code_simp

text \<open>
  C8. For a file that can be read, \<open>validate_cohort_file\<close> hands the text of the file,
  a string, to \<open>validate_cohort\<close>, which applies \<open>json.dumps\<close> to it: the result equals
  \<open>validate_cohort\<close> of that string, the first Java call is \<open>fromJson\<close> on the JSON
  string literal of the text, and no dictionary is serialized to that literal, so the
  parser is not given the document the file holds. On the file system with the file
  \<open>cohort.json\<close> holding \<open>{}\<close>, the result for the file differs from the result for
  the parsed document.
\<close>

theorem file_text_is_passed_as_string:
  "(\<forall>s. rf p = Inr s \<longrightarrow>
       validate_cohort_file rf slf p = validate_cohort slf (PyStr s)
     \<and> json_dumps (PyStr s) = Inr (encode_basestring_ascii s)
     \<and> (\<exists>rest. snd (validate_cohort_file_calls rf slf p)
                  = FromJson (encode_basestring_ascii s) # rest)
     \<and> (\<forall>kvs doc. json_dumps (PyDict kvs) = Inr doc \<longrightarrow> doc \<noteq> encode_basestring_ascii s))
   \<and> (example_read_file ''cohort.json'' = Inr ''{}''
      \<and> json_dumps (PyDict []) = Inr ''{}''
      \<and> validate_cohort_file example_read_file example_validator ''cohort.json''
          \<noteq> validate_cohort example_validator (PyDict []))"
proof (intro conjI allI impI)
  fix s assume r: "rf p = Inr s"
  show "validate_cohort_file rf slf p = validate_cohort slf (PyStr s)"
    by (simp add: validate_cohort_file_def validate_cohort_def validate_cohort_file_read[where rf=rf and p=p, OF r])
  show "json_dumps (PyStr s) = Inr (encode_basestring_ascii s)"
    by (rule dumps_str)
  show "\<exists>rest. snd (validate_cohort_file_calls rf slf p)
                  = FromJson (encode_basestring_ascii s) # rest"
    using first_java_call_of_text[of slf s] by (simp add: validate_cohort_file_read[where rf=rf and p=p, OF r])
next
  fix s kvs doc assume "rf p = Inr s" and d: "json_dumps (PyDict kvs) = Inr doc"
  from dumps_dict_starts_with_brace[OF d] string_literal_starts_with_quote[of s]
  show "doc \<noteq> encode_basestring_ascii s" by auto
next
  show "example_read_file ''cohort.json'' = Inr ''{}''"
    by (simp add: example_read_file_def)
  show "json_dumps (PyDict []) = Inr ''{}''"
    by (simp add: json_dumps_def)
  show "validate_cohort_file example_read_file example_validator ''cohort.json''
          \<noteq> validate_cohort example_validator (PyDict [])"
    by (rule file_differs_from_parsed)
qed

theorem file_text_is_passed_as_string_witness:
  "example_read_file ''cohort.json'' = Inr ''{}''
   \<and> validate_cohort_file example_read_file example_validator ''cohort.json''
       = validate_cohort example_validator (PyStr ''{}'')
   \<and> validate_cohort example_validator (PyStr ''{}'')
       = Inr ([], [[(''message'', ''Validation error: Cannot construct instance of CohortExpression''),
                    (''severity'', ''CRITICAL''), (''type'', ''VALIDATION_ERROR'')]])
   \<and> validate_cohort example_validator (PyDict []) = Inr ([], [])"
proof -
  have r: "example_read_file ''cohort.json'' = Inr ''{}''"
    by (simp add: example_read_file_def)
  note t = file_text_is_passed_as_string[of example_read_file "''cohort.json''" example_validator,
      THEN conjunct1, rule_format, OF r, THEN conjunct1]
  have a: "validate_cohort example_validator (PyStr ''{}'')
       = Inr ([], [[(''message'', ''Validation error: Cannot construct instance of CohortExpression''),
                    (''severity'', ''CRITICAL''), (''type'', ''VALIDATION_ERROR'')]])"
    by code_simp
  have b: "validate_cohort example_validator (PyDict []) = Inr ([], [])"
    by code_simp
  from r t a b show ?thesis by (intro conjI)
qed














end
